theory Spec2Isabelle
  imports Complex_Main
begin

section \<open>The LibreNMS API client (src/LibreNMS.py)\<close>

subsection \<open>Values exchanged with the API\<close>

text \<open>
  A Python float as the JSON decoder produces it. Only its order relative to an
  integer matters to the client, which Python decides exactly; a finite float is
  therefore kept as the rational number it denotes.
\<close>

datatype pyfloat = Finite rat | PosInf | NegInf | NaN

text \<open>
  A decoded JSON document, as Python's decoder returns it: \<open>None\<close>, \<open>bool\<close>,
  \<open>int\<close> (unbounded), \<open>float\<close>, \<open>str\<close>, \<open>list\<close> and \<open>dict\<close>. A dict is
  the list of its items in insertion order, each key once; \<open>map_of\<close> looks a key up.
\<close>

datatype json_value =
    JNull
  | JBool bool
  | JInt int
  | JFloat pyfloat
  | JStr string
  | JArr "json_value list"
  | JObj "(string \<times> json_value) list"

text \<open>
  The response object of the HTTP library: its \<open>status_code\<close> attribute and what its
  \<open>json()\<close> method decodes the body to (\<open>None\<close> when the body is not valid JSON).
\<close>

record response =
  status_code :: int
  decoded :: "json_value option"

text \<open>
  The exceptions that can leave the client. \<open>Exception\<close> is the generic failure of
  \<open>device_exists\<close>, carrying the response object; \<open>RequestException\<close> stands for any
  failure raised by the HTTP library while performing a request.
\<close>

datatype exn =
    Exception response
  | ValueError string
  | TypeError
  | AttributeError
  | JSONDecodeError
  | RequestException string

text \<open>The keyword arguments of one call of \<open>requests.request\<close>.\<close>

record request =
  req_method :: string
  req_url :: string
  req_headers :: "(string \<times> string) list"
  req_json :: "json_value option"
  req_verify :: bool

text \<open>
  The network: given the requests issued so far and the next request, either the
  HTTP library raises or it returns a response. Every operation threads the list of
  requests issued so far.
\<close>

type_synonym transport = "request list \<Rightarrow> request \<Rightarrow> exn + response"

definition requests_request ::
  "transport \<Rightarrow> request \<Rightarrow> request list \<Rightarrow> (exn + response) \<times> request list" where
  "requests_request net req sent = (net sent req, sent @ [req])"

subsection \<open>Python primitives used by the client\<close>

text \<open>\<open>s.rstrip(chars)\<close>: drop every trailing character that occurs in \<open>chars\<close>.\<close>

definition rstrip :: "string \<Rightarrow> string \<Rightarrow> string" where
  "rstrip s chars = rev (dropWhile (\<lambda>c. c \<in> set chars) (rev s))"

text \<open>\<open>response.json()\<close>: the decoded body, or a decoding failure.\<close>

definition response_json :: "response \<Rightarrow> exn + json_value" where
  "response_json r = (case decoded r of None \<Rightarrow> Inl JSONDecodeError | Some v \<Rightarrow> Inr v)"

text \<open>
  \<open>result.get(key)\<close>: only a dict has the method; a missing key gives \<open>None\<close>.
\<close>

fun py_get :: "json_value \<Rightarrow> string \<Rightarrow> exn + json_value" where
  "py_get (JObj items) key = (case map_of items key of None \<Rightarrow> Inr JNull | Some v \<Rightarrow> Inr v)"
| "py_get _ key = Inl AttributeError"

text \<open>\<open>v == s\<close> for a string \<open>s\<close>: true exactly for the same string.\<close>

fun py_eq_str :: "json_value \<Rightarrow> string \<Rightarrow> bool" where
  "py_eq_str (JStr t) s = (t = s)"
| "py_eq_str _ s = False"

text \<open>
  \<open>v > n\<close> for an integer \<open>n\<close>: numbers (and booleans, which are integers) are
  compared; every other operand raises \<open>TypeError\<close>.
\<close>

fun py_gt_int :: "json_value \<Rightarrow> int \<Rightarrow> exn + bool" where
  "py_gt_int (JInt k) n = Inr (k > n)"
| "py_gt_int (JBool b) n = Inr ((if b then 1 else 0) > n)"
| "py_gt_int (JFloat (Finite q)) n = Inr (q > of_int n)"
| "py_gt_int (JFloat PosInf) n = Inr True"
| "py_gt_int (JFloat NegInf) n = Inr False"
| "py_gt_int (JFloat NaN) n = Inr False"
| "py_gt_int JNull n = Inl TypeError"
| "py_gt_int (JStr s) n = Inl TypeError"
| "py_gt_int (JArr xs) n = Inl TypeError"
| "py_gt_int (JObj items) n = Inl TypeError"

subsection \<open>The client\<close>

record LibreNMS =
  base_url :: string
  api_token :: string
  headers :: "(string \<times> string) list"
  ssl_verify :: bool
  api_verion :: string

text \<open>
  \<open>__init__\<close> (the caller passes \<open>True\<close> for \<open>ssl_verify\<close> when it omits it).
  It runs in the same state as the operations: the requests issued so far.
\<close>

definition init ::
  "string \<Rightarrow> string \<Rightarrow> bool \<Rightarrow> request list \<Rightarrow> LibreNMS \<times> request list" where
  "init base_url0 api_token0 ssl_verify0 sent =
     (let stripped = rstrip base_url0 ''/'';
          version = ''/api/v0''
      in (\<lparr>base_url = stripped @ version,
           api_token = api_token0,
           headers = [(''X-Auth-Token'', api_token0),
                      (''Content-Type'', ''application/json''),
                      (''Accept'', ''application/json'')],
           ssl_verify = ssl_verify0,
           api_verion = version\<rparr>, sent))"

text \<open>
  Lines 49 to 57 of \<open>device_exists\<close>: what the method does with the response. Each
  \<open>if\<close> block either returns (\<open>Some\<close>), raises, or falls through (\<open>None\<close>) to the
  next statement.
\<close>

definition device_exists_result :: "response \<Rightarrow> exn + bool" where
  "device_exists_result resp =
     (case (if status_code resp = 404 then
              (case response_json resp of
                 Inl e \<Rightarrow> Inl e
               | Inr result \<Rightarrow>
                  (case py_get result ''status'' of
                     Inl e \<Rightarrow> Inl e
                   | Inr s \<Rightarrow> if py_eq_str s ''error'' then Inr (Some False) else Inr None))
            else Inr None) of
        Inl e \<Rightarrow> Inl e
      | Inr (Some b) \<Rightarrow> Inr b
      | Inr None \<Rightarrow>
         (case (if status_code resp = 200 then
                  (case response_json resp of
                     Inl e \<Rightarrow> Inl e
                   | Inr result \<Rightarrow>
                      (case py_get result ''count'' of
                         Inl e \<Rightarrow> Inl e
                       | Inr c \<Rightarrow>
                          (case py_gt_int c 0 of
                             Inl e \<Rightarrow> Inl e
                           | Inr g \<Rightarrow> if g then Inr (Some True) else Inr None)))
                else Inr None) of
            Inl e \<Rightarrow> Inl e
          | Inr (Some b) \<Rightarrow> Inr b
          | Inr None \<Rightarrow> Inl (Exception resp)))"

definition device_exists_request :: "LibreNMS \<Rightarrow> string \<Rightarrow> request" where
  "device_exists_request self hostname =
     \<lparr>req_method = ''GET'',
      req_url = base_url self @ ''/devices/'' @ hostname,
      req_headers = headers self,
      req_json = None,
      req_verify = ssl_verify self\<rparr>"

definition device_exists ::
  "LibreNMS \<Rightarrow> string \<Rightarrow> transport \<Rightarrow> request list \<Rightarrow> (exn + bool) \<times> request list" where
  "device_exists self hostname net sent =
     (case requests_request net (device_exists_request self hostname) sent of
        (Inl e, sent') \<Rightarrow> (Inl e, sent')
      | (Inr resp, sent') \<Rightarrow> (device_exists_result resp, sent'))"

text \<open>The three rewriting \<open>if\<close>s of \<open>add_device\<close>, in the order of the source.\<close>

definition normalize_version :: "string \<Rightarrow> string" where
  "normalize_version snmp_version =
     (let v1 = (if snmp_version = ''1'' then ''v1'' else snmp_version);
          v2 = (if v1 = ''2'' then ''v2c'' else v1);
          v3 = (if v2 = ''3'' then ''v3'' else v2)
      in v3)"

definition already_exists :: "string \<Rightarrow> json_value" where
  "already_exists hostname =
     JObj [(''status'', JStr ''error''),
           (''message'', JStr (''Device with hostname '' @ [CHR 0x27] @ hostname @ [CHR 0x27]
                               @ '' already exists''))]"

definition version_error :: exn where
  "version_error = ValueError (''SNMP version isn'' @ [CHR 0x27] @ ''t correct'')"

definition add_device_request :: "LibreNMS \<Rightarrow> string \<Rightarrow> string \<Rightarrow> string \<Rightarrow> request" where
  "add_device_request self hostname community version =
     \<lparr>req_method = ''POST'',
      req_url = base_url self @ ''/devices'',
      req_headers = headers self,
      req_json = Some (JObj [(''hostname'', JStr hostname),
                             (''community'', JStr community),
                             (''version'', JStr version)]),
      req_verify = ssl_verify self\<rparr>"

text \<open>
  \<open>add_device\<close> (the caller passes \<open>''v2c''\<close> for \<open>snmp_version\<close> when it omits it).
\<close>

definition add_device ::
  "LibreNMS \<Rightarrow> string \<Rightarrow> string \<Rightarrow> string \<Rightarrow> transport \<Rightarrow> request list
     \<Rightarrow> (exn + json_value) \<times> request list" where
  "add_device self hostname community snmp_version net sent =
     (case device_exists self hostname net sent of
        (Inl e, sent1) \<Rightarrow> (Inl e, sent1)
      | (Inr True, sent1) \<Rightarrow> (Inr (already_exists hostname), sent1)
      | (Inr False, sent1) \<Rightarrow>
          (let version = normalize_version snmp_version in
           if version \<notin> set [''v1'', ''v2c'', ''v3''] then (Inl version_error, sent1)
           else
             (case requests_request net
                     (add_device_request self hostname community version) sent1 of
                (Inl e, sent2) \<Rightarrow> (Inl e, sent2)
              | (Inr resp, sent2) \<Rightarrow> (response_json resp, sent2))))"

subsection \<open>Mocked networks and a client, for concrete runs\<close>

text \<open>
  These are not part of the client: a network that answers every GET with one fixed
  outcome and every other request with another, and a client built by \<open>init\<close>, on
  which the operations are run.
\<close>

definition reply :: "int \<Rightarrow> json_value \<Rightarrow> exn + response" where
  "reply code body = Inr \<lparr>status_code = code, decoded = Some body\<rparr>"

definition mock_net :: "(exn + response) \<Rightarrow> (exn + response) \<Rightarrow> transport" where
  "mock_net on_get on_post sent req = (if req_method req = ''GET'' then on_get else on_post)"

definition client0 :: LibreNMS where
  "client0 = fst (init ''https://nms.example//'' ''secret'' True [])"

definition created :: json_value where
  "created = JObj [(''status'', JStr ''ok''), (''message'', JStr ''Device host3 has been added'')]"

definition net_found :: transport where
  "net_found = mock_net (reply 200 (JObj [(''count'', JInt 2)])) (reply 200 created)"

definition net_missing :: transport where
  "net_missing = mock_net (reply 404 (JObj [(''status'', JStr ''error'')])) (reply 500 created)"

definition net_zero :: transport where
  "net_zero = mock_net (reply 200 (JObj [(''status'', JStr ''ok''), (''count'', JInt 0)])) (reply 200 created)"

definition net_nocount :: transport where
  "net_nocount = mock_net (reply 200 (JObj [(''status'', JStr ''ok'')])) (reply 200 created)"

definition net_html404 :: transport where
  "net_html404 = mock_net (Inr \<lparr>status_code = 404, decoded = None\<rparr>) (reply 200 created)"

definition net_down :: transport where
  "net_down = mock_net (Inl (RequestException ''connection refused'')) (reply 200 created)"

lemmas mock_defs = reply_def mock_net_def client0_def created_def init_def rstrip_def
  device_exists_request_def add_device_request_def requests_request_def device_exists_def
  device_exists_result_def response_json_def add_device_def normalize_version_def
  already_exists_def version_error_def Let_def

subsection \<open>Helper lemmas\<close>

lemma device_exists_sent:
  "snd (device_exists self hostname net sent) = sent @ [device_exists_request self hostname]"
  by (simp add: device_exists_def requests_request_def split: sum.split)

lemma device_exists_response:
  "net sent (device_exists_request self hostname) = Inr resp \<Longrightarrow>
   device_exists self hostname net sent
     = (device_exists_result resp, sent @ [device_exists_request self hostname])"
  by (simp add: device_exists_def requests_request_def)

lemma device_exists_pair:
  "fst (device_exists self hostname net sent) = r \<Longrightarrow>
   device_exists self hostname net sent = (r, sent @ [device_exists_request self hostname])"
  by (metis device_exists_sent prod.collapse)

lemma rstrip_append: "\<exists>k. s = rstrip s [c] @ replicate k c"
proof -
  have "\<exists>k. takeWhile (\<lambda>x. x = c) xs = replicate k c" for xs :: string
    by (induction xs) (auto intro: exI[of _ "Suc _"] exI[of _ 0])
  then obtain k where k: "takeWhile (\<lambda>x. x = c) (rev s) = replicate k c" by blast
  have "rev s = takeWhile (\<lambda>x. x = c) (rev s) @ dropWhile (\<lambda>x. x = c) (rev s)" by simp
  then have "s = rev (dropWhile (\<lambda>x. x = c) (rev s)) @ rev (replicate k c)"
    using k by (metis rev_append rev_rev_ident)
  then show ?thesis by (auto simp: rstrip_def)
qed

lemma rstrip_last: "rstrip s [c] = [] \<or> last (rstrip s [c]) \<noteq> c"
proof (cases "dropWhile (\<lambda>x. x = c) (rev s)")
  case Nil then show ?thesis by (simp add: rstrip_def)
next
  case (Cons y ys)
  then have "y \<noteq> c" using hd_dropWhile[of "\<lambda>x. x = c" "rev s"] by auto
  then show ?thesis using Cons by (simp add: rstrip_def)
qed

lemma normalize_version_cases:
  "normalize_version v =
     (if v = ''1'' then ''v1'' else if v = ''2'' then ''v2c'' else if v = ''3'' then ''v3'' else v)"
  by (simp add: normalize_version_def)

lemma normalize_version_valid:
  "normalize_version v \<in> set [''v1'', ''v2c'', ''v3'']
     \<longleftrightarrow> v \<in> {''1'', ''2'', ''3'', ''v1'', ''v2c'', ''v3''}"
  by (auto simp: normalize_version_cases)

subsection \<open>Claims\<close>

text \<open>
  C1. When the GET of \<open>device_exists\<close> is answered with status 200 and a JSON object
  whose \<open>count\<close> field is greater than 0 (Python's \<open>count > 0\<close> is \<open>True\<close>: a positive
  integer or float, or \<open>true\<close>), the operation returns \<open>True\<close>; the GET is the only request
  it issues.
\<close>

theorem device_exists_found:
  assumes "net sent (device_exists_request self hostname) = Inr resp"
    and "status_code resp = 200"
    and "decoded resp = Some (JObj items)"
    and "map_of items ''count'' = Some c"
    and "py_gt_int c 0 = Inr True"
  shows "device_exists self hostname net sent
           = (Inr True, sent @ [device_exists_request self hostname])"
  using assms by (simp add: device_exists_response device_exists_result_def response_json_def)

text \<open>
  The run of the first scenario: status 200 and body \<open>{"count": 2}\<close>.
\<close>

theorem device_exists_found_witness:
  "net_found [] (device_exists_request client0 ''host1'')
     = Inr \<lparr>status_code = 200, decoded = Some (JObj [(''count'', JInt 2)])\<rparr>
   \<and> map_of [(''count'', JInt 2)] ''count'' = Some (JInt 2)
   \<and> py_gt_int (JInt 2) 0 = Inr True
   \<and> device_exists client0 ''host1'' net_found []
       = (Inr True, [device_exists_request client0 ''host1''])"
proof -
  have h: "net_found [] (device_exists_request client0 ''host1'')
     = Inr \<lparr>status_code = 200, decoded = Some (JObj [(''count'', JInt 2)])\<rparr>"
    by (simp add: net_found_def mock_net_def reply_def device_exists_request_def)
  show ?thesis
    using h device_exists_found [of net_found "[]" client0 "''host1''"
        "\<lparr>status_code = 200, decoded = Some (JObj [(''count'', JInt 2)])\<rparr>"
        "[(''count'', JInt 2)]" "JInt 2"]
    by simp
qed

text \<open>
  C2. When the GET of \<open>device_exists\<close> is answered with status 404 and a JSON object
  whose \<open>status\<close> field is the string \<open>error\<close>, the operation returns \<open>False\<close>.
\<close>

theorem device_exists_missing:
  assumes "net sent (device_exists_request self hostname) = Inr resp"
    and "status_code resp = 404"
    and "decoded resp = Some (JObj items)"
    and "map_of items ''status'' = Some (JStr ''error'')"
  shows "device_exists self hostname net sent
           = (Inr False, sent @ [device_exists_request self hostname])"
  using assms by (simp add: device_exists_response device_exists_result_def response_json_def)

text \<open>
  The run of the second scenario: status 404 and body \<open>{"status": "error"}\<close>.
\<close>

theorem device_exists_missing_witness:
  "net_missing [] (device_exists_request client0 ''host2'')
     = Inr \<lparr>status_code = 404, decoded = Some (JObj [(''status'', JStr ''error'')])\<rparr>
   \<and> map_of [(''status'', JStr ''error'')] ''status'' = Some (JStr ''error'')
   \<and> device_exists client0 ''host2'' net_missing []
       = (Inr False, [device_exists_request client0 ''host2''])"
proof -
  have h: "net_missing [] (device_exists_request client0 ''host2'')
     = Inr \<lparr>status_code = 404, decoded = Some (JObj [(''status'', JStr ''error'')])\<rparr>"
    by (simp add: net_missing_def mock_net_def reply_def device_exists_request_def)
  show ?thesis
    using h device_exists_missing [of net_missing "[]" client0 "''host2''"
        "\<lparr>status_code = 404, decoded = Some (JObj [(''status'', JStr ''error'')])\<rparr>"
        "[(''status'', JStr ''error'')]"]
    by simp
qed

text \<open>
  C3. When the existence check of \<open>add_device\<close> returns \<open>True\<close>, \<open>add_device\<close> returns
  (it does not raise) the mapping with \<open>status\<close> \<open>error\<close> and the message
  \<open>Device with hostname '<hostname>' already exists\<close>, for every community and version;
  the only request it has issued is the GET of the check, so no POST.
\<close>

theorem add_device_already_exists:
  assumes "fst (device_exists self hostname net sent) = Inr True"
  shows "add_device self hostname community snmp_version net sent
           = (Inr (JObj [(''status'', JStr ''error''),
                         (''message'', JStr (''Device with hostname '' @ [CHR 0x27] @ hostname
                                             @ [CHR 0x27] @ '' already exists''))]),
              sent @ [device_exists_request self hostname])
         \<and> req_method (device_exists_request self hostname) = ''GET''
         \<and> filter (\<lambda>r. req_method r = ''POST'')
              (drop (length sent) (snd (add_device self hostname community snmp_version net sent)))
            = []"
  using device_exists_pair [OF assms]
  by (simp add: add_device_def already_exists_def device_exists_request_def)

text \<open>
  A run on a network where the device is found.
\<close>

theorem add_device_already_exists_witness:
  "fst (device_exists client0 ''host1'' net_found []) = Inr True
   \<and> add_device client0 ''host1'' ''public'' ''v2c'' net_found []
       = (Inr (JObj [(''status'', JStr ''error''),
                     (''message'', JStr (''Device with hostname '' @ [CHR 0x27] @ ''host1''
                                         @ [CHR 0x27] @ '' already exists''))]),
          [device_exists_request client0 ''host1''])"
proof -
  have h: "fst (device_exists client0 ''host1'' net_found []) = Inr True"
    by (simp add: net_found_def mock_defs)
  show ?thesis
    using h add_device_already_exists [OF h, of "''public''" "''v2c''"] by simp
qed

text \<open>
  C4. When the existence check returns \<open>False\<close>, the versions \<open>1\<close>, \<open>2\<close>, \<open>3\<close> are sent
  as \<open>v1\<close>, \<open>v2c\<close>, \<open>v3\<close> (and \<open>v1\<close>, \<open>v2c\<close>, \<open>v3\<close> as they are): after the GET
  of the check, \<open>add_device\<close> issues one POST to \<open><base>/devices\<close> whose JSON payload is
  exactly \<open>{hostname, community, version}\<close> with the normalized version.
\<close>

theorem add_device_payload:
  assumes "fst (device_exists self hostname net sent) = Inr False"
    and "(snmp_version, version) \<in> {(''1'', ''v1''), (''2'', ''v2c''), (''3'', ''v3''),
                                      (''v1'', ''v1''), (''v2c'', ''v2c''), (''v3'', ''v3'')}"
  shows "snd (add_device self hostname community snmp_version net sent)
           = sent @ [device_exists_request self hostname,
                     \<lparr>req_method = ''POST'',
                      req_url = base_url self @ ''/devices'',
                      req_headers = headers self,
                      req_json = Some (JObj [(''hostname'', JStr hostname),
                                             (''community'', JStr community),
                                             (''version'', JStr version)]),
                      req_verify = ssl_verify self\<rparr>]"
proof -
  have v: "normalize_version snmp_version = version"
    using assms(2) by (auto simp: normalize_version_cases)
  have ok: "version \<in> set [''v1'', ''v2c'', ''v3'']"
    using assms(2) by auto
  show ?thesis
    using device_exists_pair [OF assms(1)] v ok
    by (simp add: add_device_def add_device_request_def requests_request_def Let_def
             split: sum.split)
qed

text \<open>
  The run of the third scenario: version \<open>2\<close> is sent as \<open>v2c\<close>.
\<close>

theorem add_device_payload_witness:
  "fst (device_exists client0 ''host3'' net_missing []) = Inr False
   \<and> snd (add_device client0 ''host3'' ''public'' ''2'' net_missing [])
       = [device_exists_request client0 ''host3'',
          \<lparr>req_method = ''POST'',
           req_url = ''https://nms.example/api/v0/devices'',
           req_headers = [(''X-Auth-Token'', ''secret''),
                          (''Content-Type'', ''application/json''),
                          (''Accept'', ''application/json'')],
           req_json = Some (JObj [(''hostname'', JStr ''host3''),
                                  (''community'', JStr ''public''),
                                  (''version'', JStr ''v2c'')]),
           req_verify = True\<rparr>]"
proof -
  have h: "fst (device_exists client0 ''host3'' net_missing []) = Inr False"
    by (simp add: net_missing_def mock_defs)
  have c: "base_url client0 = ''https://nms.example/api/v0''
           \<and> headers client0 = [(''X-Auth-Token'', ''secret''),
                          (''Content-Type'', ''application/json''),
                          (''Accept'', ''application/json'')]
           \<and> ssl_verify client0 = True"
    by (simp add: client0_def init_def rstrip_def Let_def)
  show ?thesis
    using h c add_device_payload [OF h, of "''2''" "''v2c''" "''public''"] by simp
qed

text \<open>
  C5 (amended). \<open>device_exists\<close> raises the generic exception carrying the response when the
  response has a status code other than 200 and 404; or status 404 and a body that decodes
  to a JSON object whose \<open>status\<close> field is absent or not the string \<open>error\<close>; or status
  200 and a body that decodes to a JSON object whose \<open>count\<close> field is a number not greater
  than 0. In particular status 200 with \<open>count == 0\<close> raises rather than returning
  \<open>False\<close>.
\<close>

theorem device_exists_unexpected:
  assumes "net sent (device_exists_request self hostname) = Inr resp"
    and "status_code resp \<noteq> 200 \<and> status_code resp \<noteq> 404
         \<or> status_code resp = 404
            \<and> (\<exists>items. decoded resp = Some (JObj items)
                        \<and> map_of items ''status'' \<noteq> Some (JStr ''error''))
         \<or> status_code resp = 200
            \<and> (\<exists>items c. decoded resp = Some (JObj items)
                          \<and> map_of items ''count'' = Some c \<and> py_gt_int c 0 = Inr False)"
  shows "device_exists self hostname net sent
           = (Inl (Exception resp), sent @ [device_exists_request self hostname])"
proof -
  have "device_exists_result resp = Inl (Exception resp)"
    using assms(2)
  proof (elim disjE conjE exE)
    assume "status_code resp \<noteq> 200" "status_code resp \<noteq> 404"
    then show ?thesis by (simp add: device_exists_result_def)
  next
    fix items
    assume a: "status_code resp = 404" "decoded resp = Some (JObj items)"
      "map_of items ''status'' \<noteq> Some (JStr ''error'')"
    define s where "s = (case map_of items ''status'' of None \<Rightarrow> JNull | Some v \<Rightarrow> v)"
    have get: "py_get (JObj items) ''status'' = Inr s"
      by (simp add: s_def split: option.split)
    have "\<not> py_eq_str s ''error''"
    proof (cases "map_of items ''status''")
      case None then show ?thesis by (simp add: s_def)
    next
      case (Some v) with a(3) show ?thesis by (cases v) (auto simp: s_def)
    qed
    with a(1,2) get show ?thesis
      by (simp add: device_exists_result_def response_json_def del: py_get.simps)
  next
    fix items c
    assume "status_code resp = 200" "decoded resp = Some (JObj items)"
      "map_of items ''count'' = Some c" "py_gt_int c 0 = Inr False"
    then show ?thesis by (simp add: device_exists_result_def response_json_def)
  qed
  then show ?thesis using assms(1) by (simp add: device_exists_response)
qed

text \<open>
  A run with status 200 and \<open>count == 0\<close>.
\<close>

theorem device_exists_unexpected_witness:
  "net_zero [] (device_exists_request client0 ''host1'')
     = Inr \<lparr>status_code = 200,
            decoded = Some (JObj [(''status'', JStr ''ok''), (''count'', JInt 0)])\<rparr>
   \<and> map_of [(''status'', JStr ''ok''), (''count'', JInt 0)] ''count'' = Some (JInt 0)
   \<and> py_gt_int (JInt 0) 0 = Inr False
   \<and> device_exists client0 ''host1'' net_zero []
       = (Inl (Exception \<lparr>status_code = 200,
              decoded = Some (JObj [(''status'', JStr ''ok''), (''count'', JInt 0)])\<rparr>),
          [device_exists_request client0 ''host1''])"
proof -
  have h: "net_zero [] (device_exists_request client0 ''host1'')
     = Inr \<lparr>status_code = 200,
            decoded = Some (JObj [(''status'', JStr ''ok''), (''count'', JInt 0)])\<rparr>"
    by (simp add: net_zero_def mock_net_def reply_def device_exists_request_def)
  show ?thesis
    using h device_exists_unexpected [of net_zero "[]" client0 "''host1''"
        "\<lparr>status_code = 200,
            decoded = Some (JObj [(''status'', JStr ''ok''), (''count'', JInt 0)])\<rparr>"]
    by simp
qed

text \<open>
  As first stated, for every response outside the two handled shapes, the property fails: a
  404 whose body is not valid JSON has no \<open>error\<close> status, and the call ends in the
  decoding failure of \<open>response.json()\<close>, not in the generic exception.
\<close>

theorem device_exists_unexpected_counterexample:
  "net_html404 [] (device_exists_request client0 ''host1'')
     = Inr \<lparr>status_code = 404, decoded = None\<rparr>
   \<and> fst (device_exists client0 ''host1'' net_html404 []) = Inl JSONDecodeError
   \<and> fst (device_exists client0 ''host1'' net_html404 [])
       \<noteq> Inl (Exception \<lparr>status_code = 404, decoded = None\<rparr>)"
  by (simp add: net_html404_def mock_defs)

text \<open>
  C6 (amended). For a version outside \<open>1, 2, 3, v1, v2c, v3\<close>, \<open>add_device\<close> issues exactly
  one request, the GET of the existence check, and no POST; and when that check returns
  \<open>False\<close> it raises \<open>ValueError\<close> with the message \<open>SNMP version isn't correct\<close>.
\<close>

theorem add_device_invalid_version:
  assumes "snmp_version \<notin> {''1'', ''2'', ''3'', ''v1'', ''v2c'', ''v3''}"
  shows "(fst (device_exists self hostname net sent) = Inr False \<longrightarrow>
            fst (add_device self hostname community snmp_version net sent)
              = Inl (ValueError (''SNMP version isn'' @ [CHR 0x27] @ ''t correct'')))
         \<and> snd (add_device self hostname community snmp_version net sent)
             = sent @ [device_exists_request self hostname]
         \<and> req_method (device_exists_request self hostname) = ''GET''"
proof -
  have bad: "normalize_version snmp_version \<notin> set [''v1'', ''v2c'', ''v3'']"
    using assms normalize_version_valid [of snmp_version] by blast
  have m: "req_method (device_exists_request self hostname) = ''GET''"
    by (simp add: device_exists_request_def)
  show ?thesis
  proof (cases "fst (device_exists self hostname net sent)")
    case (Inl e)
    from device_exists_pair [OF this] m show ?thesis
      by (simp add: add_device_def)
  next
    case (Inr b)
    from device_exists_pair [OF this] m bad show ?thesis
      by (cases b) (simp_all add: add_device_def version_error_def)
  qed
qed

text \<open>
  A run with version \<open>v9\<close> on a network where the device is not found.
\<close>

theorem add_device_invalid_version_witness:
  "''v9'' \<notin> {''1'', ''2'', ''3'', ''v1'', ''v2c'', ''v3''}
   \<and> fst (device_exists client0 ''host3'' net_missing []) = Inr False
   \<and> add_device client0 ''host3'' ''public'' ''v9'' net_missing []
      = (Inl (ValueError (''SNMP version isn'' @ [CHR 0x27] @ ''t correct'')),
         [device_exists_request client0 ''host3''])"
proof -
  have v: "''v9'' \<notin> {''1'', ''2'', ''3'', ''v1'', ''v2c'', ''v3''}" by simp
  have h: "fst (device_exists client0 ''host3'' net_missing []) = Inr False"
    by (simp add: net_missing_def mock_defs)
  show ?thesis
    using v h add_device_invalid_version [OF v, of client0 "''host3''" net_missing "[]" "''public''"]
    by (simp add: prod_eq_iff)
qed

text \<open>
  As first stated, with the failure raised before any network call, the property fails:
  with version \<open>v9\<close> and a device that is found, \<open>add_device\<close> returns the
  already-exists mapping and raises nothing; and where it does raise \<open>ValueError\<close>, the
  GET of the existence check has been issued before.
\<close>

theorem add_device_invalid_version_counterexample:
  "''v9'' \<notin> {''1'', ''2'', ''3'', ''v1'', ''v2c'', ''v3''}
   \<and> add_device client0 ''host1'' ''public'' ''v9'' net_found []
       = (Inr (JObj [(''status'', JStr ''error''),
                     (''message'', JStr (''Device with hostname '' @ [CHR 0x27] @ ''host1''
                                         @ [CHR 0x27] @ '' already exists''))]),
          [device_exists_request client0 ''host1''])
   \<and> fst (add_device client0 ''host1'' ''public'' ''v9'' net_found [])
       \<noteq> Inl (ValueError (''SNMP version isn'' @ [CHR 0x27] @ ''t correct''))
   \<and> snd (add_device client0 ''host3'' ''public'' ''v9'' net_missing [])
       = [device_exists_request client0 ''host3'']
   \<and> snd (add_device client0 ''host3'' ''public'' ''v9'' net_missing []) \<noteq> []"
  by (simp add: net_found_def net_missing_def mock_defs)

text \<open>
  C7. \<open>__init__\<close> sets the effective base URL to the given URL without its trailing
  slashes (what is removed is a run of slashes, and what is left does not end with a
  slash), followed by \<open>/api/v0\<close> once; it builds the three fixed headers, keeps the token
  and the TLS flag, and issues no request. Both operations build their URL from that
  effective base URL.
\<close>

theorem init_effective_base_url:
  "base_url (fst (init url token verify sent)) = rstrip url ''/'' @ ''/api/v0''
   \<and> (\<exists>k. url = rstrip url ''/'' @ replicate k (CHR ''/''))
   \<and> (rstrip url ''/'' = [] \<or> last (rstrip url ''/'') \<noteq> CHR ''/'')
   \<and> headers (fst (init url token verify sent))
       = [(''X-Auth-Token'', token),
          (''Content-Type'', ''application/json''),
          (''Accept'', ''application/json'')]
   \<and> api_token (fst (init url token verify sent)) = token
   \<and> ssl_verify (fst (init url token verify sent)) = verify
   \<and> snd (init url token verify sent) = sent
   \<and> req_url (device_exists_request (fst (init url token verify sent)) hostname)
       = rstrip url ''/'' @ ''/api/v0'' @ ''/devices/'' @ hostname
   \<and> req_url (add_device_request (fst (init url token verify sent)) hostname community version)
       = rstrip url ''/'' @ ''/api/v0'' @ ''/devices''"
  using rstrip_append [of url "CHR ''/''"] rstrip_last [of url "CHR ''/''"]
  by (simp add: init_def Let_def device_exists_request_def add_device_request_def)

text \<open>
  A run on a URL that ends with two slashes.
\<close>

theorem init_effective_base_url_witness:
  "base_url (fst (init ''https://nms.example//'' ''secret'' True [])) = ''https://nms.example/api/v0''
   \<and> rstrip ''https://nms.example//'' ''/'' = ''https://nms.example''
   \<and> snd (init ''https://nms.example//'' ''secret'' True []) = []
   \<and> req_url (device_exists_request (fst (init ''https://nms.example//'' ''secret'' True [])) ''host1'')
       = ''https://nms.example/api/v0/devices/host1''"
proof -
  have r: "rstrip ''https://nms.example//'' ''/'' = ''https://nms.example''"
    by (simp add: rstrip_def)
  show ?thesis
    using r init_effective_base_url [of "''https://nms.example//''" "''secret''" True "[]" "''host1''"]
    by simp
qed

text \<open>
  C8. When \<open>add_device\<close> reaches the POST (the device is not found and the version is
  valid) and the POST is answered, the result is the decoded body of that answer, whatever
  its status code; when the body is not valid JSON, the result is the decoding failure.
\<close>

theorem add_device_returns_body:
  assumes "fst (device_exists self hostname net sent) = Inr False"
    and "normalize_version snmp_version \<in> set [''v1'', ''v2c'', ''v3'']"
    and "net (sent @ [device_exists_request self hostname])
             (add_device_request self hostname community (normalize_version snmp_version))
           = Inr resp"
  shows "fst (add_device self hostname community snmp_version net sent)
           = (case decoded resp of Some body \<Rightarrow> Inr body | None \<Rightarrow> Inl JSONDecodeError)"
  using device_exists_pair [OF assms(1)] assms(2,3)
  by (auto simp: add_device_def requests_request_def response_json_def Let_def)

text \<open>
  A run where the POST is answered with status 500: the body is returned all the same.
\<close>

theorem add_device_returns_body_witness:
  "fst (device_exists client0 ''host3'' net_missing []) = Inr False
   \<and> normalize_version ''2'' \<in> set [''v1'', ''v2c'', ''v3'']
   \<and> net_missing ([] @ [device_exists_request client0 ''host3''])
        (add_device_request client0 ''host3'' ''public'' (normalize_version ''2''))
       = Inr \<lparr>status_code = 500, decoded = Some created\<rparr>
   \<and> fst (add_device client0 ''host3'' ''public'' ''2'' net_missing []) = Inr created"
proof -
  have h: "fst (device_exists client0 ''host3'' net_missing []) = Inr False"
    by (simp add: net_missing_def mock_defs)
  have v: "normalize_version ''2'' \<in> set [''v1'', ''v2c'', ''v3'']"
    by (simp add: normalize_version_def)
  have p: "net_missing ([] @ [device_exists_request client0 ''host3''])
        (add_device_request client0 ''host3'' ''public'' (normalize_version ''2''))
       = Inr \<lparr>status_code = 500, decoded = Some created\<rparr>"
    by (simp add: net_missing_def mock_net_def reply_def add_device_request_def)
  show ?thesis
    using h v p add_device_returns_body [OF h v, of "''public''"
        "\<lparr>status_code = 500, decoded = Some created\<rparr>"]
    by simp
qed

text \<open>
  C9. When the GET of \<open>device_exists\<close> is answered with status 200 and a JSON object
  without a \<open>count\<close> field, the comparison of \<open>None\<close> with 0 raises \<open>TypeError\<close>; the
  generic exception carrying the response is not raised.
\<close>

theorem device_exists_count_missing:
  assumes "net sent (device_exists_request self hostname) = Inr resp"
    and "status_code resp = 200"
    and "decoded resp = Some (JObj items)"
    and "map_of items ''count'' = None"
  shows "device_exists self hostname net sent
           = (Inl TypeError, sent @ [device_exists_request self hostname])
         \<and> fst (device_exists self hostname net sent) \<noteq> Inl (Exception resp)"
  using assms by (simp add: device_exists_response device_exists_result_def response_json_def)

text \<open>
  A run with status 200 and body \<open>{"status": "ok"}\<close>.
\<close>

theorem device_exists_count_missing_witness:
  "net_nocount [] (device_exists_request client0 ''host1'')
     = Inr \<lparr>status_code = 200, decoded = Some (JObj [(''status'', JStr ''ok'')])\<rparr>
   \<and> map_of [(''status'', JStr ''ok'')] ''count'' = None
   \<and> device_exists client0 ''host1'' net_nocount []
       = (Inl TypeError, [device_exists_request client0 ''host1''])"
proof -
  have h: "net_nocount [] (device_exists_request client0 ''host1'')
     = Inr \<lparr>status_code = 200, decoded = Some (JObj [(''status'', JStr ''ok'')])\<rparr>"
    by (simp add: net_nocount_def mock_net_def reply_def device_exists_request_def)
  show ?thesis
    using h device_exists_count_missing [of net_nocount "[]" client0 "''host1''"
        "\<lparr>status_code = 200, decoded = Some (JObj [(''status'', JStr ''ok'')])\<rparr>"
        "[(''status'', JStr ''ok'')]"]
    by simp
qed

text \<open>
  C10. When the existence check of \<open>add_device\<close> raises, \<open>add_device\<close> raises the same
  error, for every version (valid or not: the version is not looked at), and the only
  request it has issued is the GET of the check.
\<close>

theorem add_device_propagates:
  assumes "fst (device_exists self hostname net sent) = Inl e"
  shows "add_device self hostname community snmp_version net sent
           = (Inl e, sent @ [device_exists_request self hostname])
         \<and> req_method (device_exists_request self hostname) = ''GET''"
  using device_exists_pair [OF assms]
  by (simp add: add_device_def device_exists_request_def)

text \<open>
  A run on a network that is down, with the invalid version \<open>v9\<close>.
\<close>

theorem add_device_propagates_witness:
  "fst (device_exists client0 ''host1'' net_down []) = Inl (RequestException ''connection refused'')
   \<and> add_device client0 ''host1'' ''public'' ''v9'' net_down []
       = (Inl (RequestException ''connection refused''), [device_exists_request client0 ''host1''])"
proof -
  have h: "fst (device_exists client0 ''host1'' net_down [])
             = Inl (RequestException ''connection refused'')"
    by (simp add: net_down_def mock_defs)
  show ?thesis
    using h add_device_propagates [OF h, of "''public''" "''v9''"] by simp
qed

end
